theory Spec2Isabelle
  imports Main
begin

section \<open>JavaScript strings\<close>

text \<open>
  A JavaScript string is modelled as a \<^typ>\<open>string\<close>, one \<^typ>\<open>char\<close> per code unit
  (code units above 255 are not represented). The methods below are the ones
  \<^verbatim>\<open>git.ts\<close> calls: \<^verbatim>\<open>s.startsWith(p)\<close>, \<^verbatim>\<open>s.endsWith(p)\<close>, \<^verbatim>\<open>s.includes(p)\<close>,
  \<^verbatim>\<open>s.slice(n)\<close> for a non-negative \<^verbatim>\<open>n\<close>, \<^verbatim>\<open>s.slice(0, -n)\<close> and \<^verbatim>\<open>s.trim()\<close>.
\<close>

definition startsWith :: "string \<Rightarrow> string \<Rightarrow> bool" where
  "startsWith s p = (take (length p) s = p)"

definition endsWith :: "string \<Rightarrow> string \<Rightarrow> bool" where
  "endsWith s p = (length p \<le> length s \<and> drop (length s - length p) s = p)"

fun includesStr :: "string \<Rightarrow> string \<Rightarrow> bool" where
  "includesStr [] p = (p = [])"
| "includesStr (c # cs) p = (startsWith (c # cs) p \<or> includesStr cs p)"

definition sliceFrom :: "string \<Rightarrow> nat \<Rightarrow> string" where
  \<comment> \<open>\<^verbatim>\<open>s.slice(n)\<close>, \<^verbatim>\<open>n \<ge> 0\<close>\<close>
  "sliceFrom s n = drop n s"

definition sliceDropLast :: "string \<Rightarrow> nat \<Rightarrow> string" where
  \<comment> \<open>\<^verbatim>\<open>s.slice(0, -n)\<close>: the end index is \<^verbatim>\<open>max(length - n, 0)\<close>\<close>
  "sliceDropLast s n = take (length s - n) s"

definition isWhiteSpace :: "char \<Rightarrow> bool" where
  \<comment> \<open>white space and line terminators among the code units below 256:
      TAB, LF, VT, FF, CR, SP, NBSP\<close>
  "isWhiteSpace c = (c \<in> {CHR 0x09, CHR 0x0A, CHR 0x0B, CHR 0x0C, CHR 0x0D, CHR 0x20, CHR 0xA0})"

definition trim :: "string \<Rightarrow> string" where
  "trim s = rev (dropWhile isWhiteSpace (rev (dropWhile isWhiteSpace s)))"

section \<open>Remote normalization\<close>

definition normalizeGitHubUrl :: "string \<Rightarrow> string option" where
  "normalizeGitHubUrl remoteUrl =
     (if startsWith remoteUrl ''git@github.com:'' then
        (let sshPath = sliceFrom remoteUrl (length ''git@github.com:'');
             repoPath = (if endsWith sshPath ''.git'' then sliceDropLast sshPath 4 else sshPath)
         in Some (''https://github.com/'' @ repoPath))
      else if includesStr remoteUrl ''github.com'' then
        Some (if endsWith remoteUrl ''.git'' then sliceDropLast remoteUrl 4 else remoteUrl)
      else None)"

section \<open>Thrown values and the external tool\<close>

text \<open>
  A thrown JavaScript value is either an \<^verbatim>\<open>Error\<close> object, of which the code reads the
  \<^verbatim>\<open>message\<close>, or any other value, of which the code takes \<^verbatim>\<open>String(error)\<close>.
  A computation that may throw returns \<open>thrown + 'a\<close>, \<open>Inl\<close> being the throw (for a promise:
  the rejection).
\<close>

datatype thrown = ErrorObject string | OtherValue string

definition describe :: "thrown \<Rightarrow> string" where
  \<comment> \<open>\<^verbatim>\<open>error instanceof Error ? error.message : String(error)\<close>\<close>
  "describe error = (case error of ErrorObject message \<Rightarrow> message | OtherValue s \<Rightarrow> s)"

text \<open>
  \<^verbatim>\<open>cp.exec(command, { cwd }, callback)\<close> runs the external tool and calls back with
  \<^verbatim>\<open>(error, stdout, stderr)\<close>. The tool and the repository it reads are outside the
  program: they are a parameter, a function of the command, the working directory and a
  state \<open>'w\<close> of the outside world, which every call may change. Of a non-null
  \<^verbatim>\<open>error\<close> only the message is kept.
\<close>

record procResult =
  cbError :: "string option"
  cbStdout :: string
  cbStderr :: string

type_synonym 'w exec = "string \<Rightarrow> string \<Rightarrow> 'w \<Rightarrow> procResult \<times> 'w"

definition executeCommand :: "'w exec \<Rightarrow> string \<Rightarrow> string \<Rightarrow> 'w \<Rightarrow> (thrown + string) \<times> 'w" where
  "executeCommand exec command cwd w =
     (case exec command cwd w of (r, w') \<Rightarrow>
        (case cbError r of
           Some message \<Rightarrow>
             (Inl (ErrorObject (''Command failed: '' @
                (if trim (cbStderr r) \<noteq> [] then trim (cbStderr r) else message))), w')
         | None \<Rightarrow> (Inr (trim (cbStdout r)), w')))"

section \<open>The repository resolver\<close>

record RepoInfo =
  remoteUrl :: string
  branch :: string
  rootPath :: string

definition truthyString :: "string option \<Rightarrow> string option" where
  \<comment> \<open>the test \<^verbatim>\<open>if (!x)\<close> on a \<^verbatim>\<open>string | null\<close>: null and the empty string are falsy\<close>
  "truthyString x = (case x of None \<Rightarrow> None | Some s \<Rightarrow> if s = [] then None else Some s)"

text \<open>
  \<^verbatim>\<open>path.dirname\<close> belongs to the runtime library, not to the repository: it is the
  parameter \<open>dirname\<close>, total on strings.
\<close>

definition getGitRootPath :: "(string \<Rightarrow> string) \<Rightarrow> 'w exec \<Rightarrow> string \<Rightarrow> 'w \<Rightarrow> string option \<times> 'w" where
  "getGitRootPath dirname exec filePath w =
     (let cwd = dirname filePath in
      case executeCommand exec ''git rev-parse --show-toplevel'' cwd w of
        (Inr result, w') \<Rightarrow> (Some result, w')
      | (Inl error, w') \<Rightarrow> (None, w'))"

definition getRemoteUrl :: "'w exec \<Rightarrow> string \<Rightarrow> 'w \<Rightarrow> string option \<times> 'w" where
  "getRemoteUrl exec repoPath w =
     (case executeCommand exec ''git config --get remote.origin.url'' repoPath w of
        (Inr url, w') \<Rightarrow> (normalizeGitHubUrl url, w')
      | (Inl error, w') \<Rightarrow> (None, w'))"

definition getCurrentBranch :: "'w exec \<Rightarrow> string \<Rightarrow> 'w \<Rightarrow> string option \<times> 'w" where
  "getCurrentBranch exec repoPath w =
     (case executeCommand exec ''git rev-parse HEAD'' repoPath w of
        (Inl error, w1) \<Rightarrow>
          (case executeCommand exec ''git symbolic-ref --short HEAD'' repoPath w1 of
             (Inr symbolicRef, w2) \<Rightarrow> (Some symbolicRef, w2)
           | (Inl innerError, w2) \<Rightarrow> (Some ''main'', w2))
      | (Inr _, w1) \<Rightarrow>
          (case executeCommand exec ''git rev-parse --abbrev-ref HEAD'' repoPath w1 of
             (Inl error, w2) \<Rightarrow> (None, w2)
           | (Inr abbrevRef, w2) \<Rightarrow>
               if abbrevRef = ''HEAD'' then
                 (case executeCommand exec ''git rev-parse HEAD'' repoPath w2 of
                    (Inl error, w3) \<Rightarrow> (None, w3)
                  | (Inr commitHash, w3) \<Rightarrow> (Some commitHash, w3))
               else (Some abbrevRef, w2)))"

text \<open>
  \<open>getRepoInfo\<close> returns the \<open>RepoInfo\<close> or null, the lines it wrote with
  \<^verbatim>\<open>console.error\<close>, and the state of the outside world. Each failure writes its own
  line, throws, and the \<^verbatim>\<open>catch\<close> writes the second line and returns null.
\<close>

definition repoInfoFailure :: "string \<Rightarrow> string \<Rightarrow> RepoInfo option \<times> string list" where
  "repoInfoFailure message hint =
     (None, [''Failed to get git repository information: '' @ message @ hint,
             ''Git error details: '' @ message])"

definition getRepoInfo ::
  "(string \<Rightarrow> string) \<Rightarrow> 'w exec \<Rightarrow> string \<Rightarrow> 'w \<Rightarrow> (RepoInfo option \<times> string list) \<times> 'w" where
  "getRepoInfo dirname exec filePath w =
     (case getGitRootPath dirname exec filePath w of (rootR, w1) \<Rightarrow>
        (case truthyString rootR of
           None \<Rightarrow> (repoInfoFailure ''Not a git repository'' [], w1)
         | Some root \<Rightarrow>
             (case getRemoteUrl exec root w1 of (remoteR, w2) \<Rightarrow>
                (case truthyString remoteR of
                   None \<Rightarrow>
                     (repoInfoFailure ''No GitHub remote found'' '', check remote configuration'', w2)
                 | Some remote \<Rightarrow>
                     (case getCurrentBranch exec root w2 of (branchR, w3) \<Rightarrow>
                        (case truthyString branchR of
                           None \<Rightarrow>
                             (repoInfoFailure ''Could not determine current branch or commit'' [], w3)
                         | Some ref \<Rightarrow>
                             ((Some \<lparr>remoteUrl = remote, branch = ref, rootPath = root\<rparr>, []),
                              w3)))))))"

section \<open>The URL builder\<close>

text \<open>
  Line numbers are JavaScript numbers holding integers; a template literal prints such
  a number in decimal (below \<open>10^21\<close> in magnitude, far above any line number).
\<close>

fun natToString :: "nat \<Rightarrow> string" where
  "natToString n =
     (if n < 10 then [''0123456789'' ! n]
      else natToString (n div 10) @ [''0123456789'' ! (n mod 10)])"

declare natToString.simps [simp del]

definition numberToString :: "int \<Rightarrow> string" where
  "numberToString i = (if i < 0 then CHR ''-'' # natToString (nat (- i)) else natToString (nat i))"

definition replaceBackslashes :: "string \<Rightarrow> string" where
  \<comment> \<open>\<^verbatim>\<open>.replace(/\\/g, '/')\<close>; \<open>CHR 0x5C\<close> is the backslash\<close>
  "replaceBackslashes s = map (\<lambda>c. if c = CHR 0x5C then CHR ''/'' else c) s"

text \<open>
  \<^verbatim>\<open>path.relative\<close> belongs to the runtime library: it is the parameter \<open>relative\<close>. It
  validates its arguments and throws on a value that is not a string; the file path is
  therefore a \<open>string option\<close>, \<open>None\<close> standing for null (the repository's test passes
  \<^verbatim>\<open>null as any\<close>). \<open>buildGitHubUrl_try\<close> is the body of the \<^verbatim>\<open>try\<close>, \<open>buildGitHubUrl\<close>
  the function with its \<^verbatim>\<open>catch\<close>; its result type keeps a place for a throw, so that
  "never throws" is a statement about it. The optional \<^verbatim>\<open>endLineNumber\<close> is an
  \<open>int option\<close>; in the condition \<^verbatim>\<open>endLineNumber && endLineNumber !== startLineNumber\<close>
  both \<^verbatim>\<open>undefined\<close> and \<open>0\<close> are falsy.
\<close>

definition buildGitHubUrl_try ::
  "(string \<Rightarrow> string option \<Rightarrow> thrown + string) \<Rightarrow> RepoInfo \<Rightarrow> string option \<Rightarrow> int \<Rightarrow> int option
     \<Rightarrow> thrown + string" where
  "buildGitHubUrl_try relative repoInfo filePath startLineNumber endLineNumber =
     (case relative (rootPath repoInfo) filePath of
        Inl error \<Rightarrow> Inl error
      | Inr rel \<Rightarrow>
          (let relativePath = replaceBackslashes rel;
               single = remoteUrl repoInfo @ ''/blob/'' @ branch repoInfo @ ''/'' @ relativePath
                  @ ''#L'' @ numberToString startLineNumber
           in case endLineNumber of
                None \<Rightarrow> Inr single
              | Some e \<Rightarrow>
                  if e \<noteq> 0 \<and> e \<noteq> startLineNumber then
                    Inr (remoteUrl repoInfo @ ''/blob/'' @ branch repoInfo @ ''/'' @ relativePath
                         @ ''#L'' @ numberToString startLineNumber
                         @ ''-L'' @ numberToString e)
                  else Inr single))"

definition buildGitHubUrl ::
  "(string \<Rightarrow> string option \<Rightarrow> thrown + string) \<Rightarrow> RepoInfo \<Rightarrow> string option \<Rightarrow> int \<Rightarrow> int option
     \<Rightarrow> thrown + string option" where
  "buildGitHubUrl relative repoInfo filePath startLineNumber endLineNumber =
     (case buildGitHubUrl_try relative repoInfo filePath startLineNumber endLineNumber of
        Inr url \<Rightarrow> Inr (Some url)
      | Inl error \<Rightarrow> Inr None)"

section \<open>The command handler\<close>

text \<open>
  What the handler reads of the active editor: \<^verbatim>\<open>editor.document.uri.fsPath\<close>,
  \<^verbatim>\<open>editor.selection.start.line\<close>, \<^verbatim>\<open>editor.selection.end.line\<close> and
  \<^verbatim>\<open>editor.selection.isEmpty\<close>.
\<close>

record editorState =
  fsPath :: string
  selStartLine :: int
  selEndLine :: int
  selIsEmpty :: bool

text \<open>
  What the handler does to the host, in order: messages shown to the user, lines written
  to the console, URIs handed to the browser.
\<close>

datatype 'u hostEvent =
    ShowErrorMessage string
  | ConsoleError string
  | ConsoleLog string
  | OpenExternal 'u

text \<open>
  The handler's collaborators. Reading the editor state, resolving the repository,
  building the URL and opening it may each throw; \<^verbatim>\<open>getRepoInfo\<close> and
  \<^verbatim>\<open>buildGitHubUrl\<close> are imported from the git module (the repository's tests replace
  them by stubs), so the handler takes them as it finds them. \<^verbatim>\<open>vscode.Uri.parse\<close> and
  \<^verbatim>\<open>vscode.env.openExternal\<close> are the host's; the promise \<^verbatim>\<open>openExternal\<close> returns is
  not awaited, so only a throw of the call itself is seen by the handler.
  \<^verbatim>\<open>showErrorMessage\<close> and the console only record what they are given.
\<close>

record 'u host =
  activeTextEditor :: "thrown + editorState option"
  getRepoInfoDep :: "string \<Rightarrow> thrown + RepoInfo option"
  buildGitHubUrlDep :: "RepoInfo \<Rightarrow> string \<Rightarrow> int \<Rightarrow> int option \<Rightarrow> thrown + string option"
  uriParse :: "string \<Rightarrow> thrown + 'u"
  openExternal :: "'u \<Rightarrow> thrown option"

definition openInGithub_try ::
  "'u host \<Rightarrow> editorState \<Rightarrow> string \<Rightarrow> int \<Rightarrow> int \<Rightarrow> 'u hostEvent list \<times> (thrown + unit)" where
  "openInGithub_try h editor filePath startLine endLine =
     (case getRepoInfoDep h filePath of
        Inl error \<Rightarrow> ([], Inl error)
      | Inr None \<Rightarrow>
          ([ShowErrorMessage ''Could not determine GitHub repository information'',
            ConsoleError ''Failed to get GitHub repository information. Check the logs for more details.''],
           Inr ())
      | Inr (Some repoInfo) \<Rightarrow>
          (case (if \<not> selIsEmpty editor \<and> startLine \<noteq> endLine
                 then buildGitHubUrlDep h repoInfo filePath startLine (Some endLine)
                 else buildGitHubUrlDep h repoInfo filePath startLine None) of
             Inl error \<Rightarrow> ([], Inl error)
           | Inr githubUrl \<Rightarrow>
               (case truthyString githubUrl of
                  None \<Rightarrow> ([ShowErrorMessage ''Failed to build GitHub URL''], Inr ())
                | Some url \<Rightarrow>
                    (case uriParse h url of
                       Inl error \<Rightarrow> ([], Inl error)
                     | Inr uri \<Rightarrow>
                         (case openExternal h uri of
                            Some error \<Rightarrow> ([], Inl error)
                          | None \<Rightarrow> ([OpenExternal uri, ConsoleLog (''Opening '' @ url)], Inr ()))))))"

definition openInGithub :: "'u host \<Rightarrow> 'u hostEvent list \<times> (thrown + unit)" where
  "openInGithub h =
     (case activeTextEditor h of
        Inl error \<Rightarrow> ([], Inl error)
      | Inr None \<Rightarrow> ([ShowErrorMessage ''No active editor found''], Inr ())
      | Inr (Some editor) \<Rightarrow>
          (let filePath = fsPath editor;
               startLine = selStartLine editor + 1;
               endLine = selEndLine editor + 1
           in case openInGithub_try h editor filePath startLine endLine of
                (events, Inr u) \<Rightarrow> (events, Inr ())
              | (events, Inl error) \<Rightarrow>
                  (events @ [ShowErrorMessage (''Error: '' @ describe error)], Inr ())))"

text \<open>The host with the git module's own \<open>getRepoInfo\<close> and \<open>buildGitHubUrl\<close>.\<close>

definition withGitModule ::
  "(string \<Rightarrow> string) \<Rightarrow> 'w exec \<Rightarrow> 'w \<Rightarrow> (string \<Rightarrow> string option \<Rightarrow> thrown + string) \<Rightarrow> 'u host \<Rightarrow> 'u host" where
  "withGitModule dirname exec w relative h =
     h\<lparr>getRepoInfoDep := (\<lambda>filePath. Inr (fst (fst (getRepoInfo dirname exec filePath w)))),
       buildGitHubUrlDep := (\<lambda>repoInfo filePath. buildGitHubUrl relative repoInfo (Some filePath))\<rparr>"

section \<open>Test doubles\<close>

text \<open>
  The repository's tests replace \<^verbatim>\<open>child_process.exec\<close> by a table of responses: the
  first key that the command includes gives the response, and a command with no key
  fails. \<open>execStub\<close> is that double; it leaves the outside world as it is.
\<close>

definition execStub :: "(string \<times> procResult) list \<Rightarrow> 'w exec" where
  "execStub responses command cwd w =
     (case find (\<lambda>(key, response). includesStr command key) responses of
        Some (key, response) \<Rightarrow> (response, w)
      | None \<Rightarrow>
          (\<lparr>cbError = Some (''No stub response for command: '' @ command),
            cbStdout = [], cbStderr = ''Command not stubbed''\<rparr>, w))"

definition succeeds :: "string \<Rightarrow> procResult" where
  "succeeds out = \<lparr>cbError = None, cbStdout = out, cbStderr = []\<rparr>"

definition fails :: "string \<Rightarrow> procResult" where
  "fails message = \<lparr>cbError = Some message, cbStdout = [], cbStderr = message\<rparr>"

text \<open>
  Stand-ins for the runtime library at the concrete inputs below: on an absolute path
  \<open>dirnameDouble\<close> drops the last component, and \<open>relativeDouble\<close> throws on null, as the
  library's validation does, and strips \<open>from\<close> and the separator from a path that
  starts with them. They are used at such inputs only.
\<close>

definition dirnameDouble :: "string \<Rightarrow> string" where
  "dirnameDouble p = rev (drop 1 (dropWhile (\<lambda>c. c \<noteq> CHR ''/'') (rev p)))"

definition relativeDouble :: "string \<Rightarrow> string option \<Rightarrow> thrown + string" where
  "relativeDouble from to =
     (case to of
        None \<Rightarrow> Inl (ErrorObject ''The to argument must be of type string. Received null'')
      | Some t \<Rightarrow> if startsWith t (from @ ''/'') then Inr (drop (length from + 1) t) else Inr t)"

text \<open>
  The response table of the repository's integration tests: the root \<^verbatim>\<open>/mock/path\<close>, the
  commit \<^verbatim>\<open>abcdef1234567890\<close>, and the origin and the abbreviated ref of the test at hand.
\<close>

definition stubbedRepo :: "string \<Rightarrow> string \<Rightarrow> (string \<times> procResult) list" where
  "stubbedRepo origin abbrevRef =
     [(''rev-parse --show-toplevel'', succeeds ''/mock/path''),
      (''config --get remote.origin.url'', succeeds origin),
      (''rev-parse --abbrev-ref HEAD'', succeeds abbrevRef),
      (''rev-parse HEAD'', succeeds ''abcdef1234567890'')]"

text \<open>A repository without commits, with and without a symbolic ref.\<close>

definition unbornRepo :: "(string \<times> procResult) list" where
  "unbornRepo =
     [(''rev-parse --show-toplevel'', succeeds ''/mock/path''),
      (''config --get remote.origin.url'', succeeds ''git@github.com:username/repo.git''),
      (''symbolic-ref --short HEAD'', succeeds ''master''),
      (''rev-parse HEAD'', fails ''fatal: ambiguous argument HEAD'')]"

definition brokenRepo :: "(string \<times> procResult) list" where
  "brokenRepo =
     [(''symbolic-ref --short HEAD'', fails ''fatal: ref HEAD is not a symbolic ref''),
      (''rev-parse HEAD'', fails ''fatal: ambiguous argument HEAD'')]"

text \<open>
  A stand-in for the library on a host whose separator is the backslash: the relative
  path of a file \<^verbatim>\<open>src\file.ts\<close> below the root.
\<close>

definition backslashRelativeDouble :: "string \<Rightarrow> string option \<Rightarrow> thrown + string" where
  "backslashRelativeDouble from to = Inr (''src'' @ [CHR 0x5C] @ ''file.ts'')"

text \<open>
  A stand-in for the library at a file outside the repository: from \<^verbatim>\<open>/mock/path\<close> to
  \<^verbatim>\<open>/other/file.ts\<close> the relative path climbs two directories. On null it throws, as
  the library's validation does.
\<close>

definition outsideRelativeDouble :: "string \<Rightarrow> string option \<Rightarrow> thrown + string" where
  "outsideRelativeDouble from to =
     (case to of
        None \<Rightarrow> Inl (ErrorObject ''The to argument must be of type string. Received null'')
      | Some t \<Rightarrow> Inr ''../../other/file.ts'')"

text \<open>
  A host for the handler: the git module over the stubbed repository with the origin
  \<^verbatim>\<open>git@github.com:acme/widget.git\<close> on the branch \<^verbatim>\<open>feature\<close>, a browser that opens
  what it is given, and the editor state and the URI parser of the scenario at hand.
\<close>

definition stubbedHost ::
  "(thrown + editorState option) \<Rightarrow> (string \<Rightarrow> thrown + string) \<Rightarrow> string host" where
  "stubbedHost editorR parse =
     withGitModule dirnameDouble
       (execStub (stubbedRepo ''git@github.com:acme/widget.git'' ''feature'')) () relativeDouble
       \<lparr>activeTextEditor = editorR,
        getRepoInfoDep = (\<lambda>filePath. Inr None),
        buildGitHubUrlDep = (\<lambda>repoInfo filePath startLine endLine. Inr None),
        uriParse = parse,
        openExternal = (\<lambda>uri. None)\<rparr>"

definition editorAt :: "int \<Rightarrow> int \<Rightarrow> bool \<Rightarrow> editorState" where
  "editorAt startLine endLine isEmpty =
     \<lparr>fsPath = ''/mock/path/src/file.ts'', selStartLine = startLine, selEndLine = endLine,
      selIsEmpty = isEmpty\<rparr>"

section \<open>Normalization of the documented remotes\<close>

text \<open>
  C3. The SSH remote \<^verbatim>\<open>git@github.com:owner/repo.git\<close> normalizes to exactly
  \<^verbatim>\<open>https://github.com/owner/repo\<close>, the HTTPS remote
  \<^verbatim>\<open>https://github.com/owner/repo.git\<close> normalizes to the same string, and the
  non-GitHub remote \<^verbatim>\<open>https://gitlab.com/owner/repo.git\<close> normalizes to an absent
  result.
\<close>

theorem normalize_documented_remotes:
  "normalizeGitHubUrl ''git@github.com:owner/repo.git'' = Some ''https://github.com/owner/repo''
   \<and> normalizeGitHubUrl ''https://github.com/owner/repo.git'' = Some ''https://github.com/owner/repo''
   \<and> normalizeGitHubUrl ''https://gitlab.com/owner/repo.git'' = None"
  by (simp add: normalizeGitHubUrl_def startsWith_def endsWith_def sliceFrom_def
      sliceDropLast_def)

section \<open>Facts about the string methods\<close>

lemma startsWith_iff: "startsWith s p \<longleftrightarrow> (\<exists>b. s = p @ b)"
  unfolding startsWith_def
  by (metis append_eq_conv_conj append_take_drop_id)

lemma endsWith_iff: "endsWith s p \<longleftrightarrow> (\<exists>a. s = a @ p)"
  unfolding endsWith_def
  by (metis append_eq_conv_conj append_take_drop_id diff_add_inverse2 length_append le_add2 length_drop)

lemma includesStr_iff: "includesStr s p \<longleftrightarrow> (\<exists>a b. s = a @ p @ b)"
proof (induction s)
  case Nil
  then show ?case by auto
next
  case (Cons c cs)
  show ?case
  proof
    assume "includesStr (c # cs) p"
    then consider "startsWith (c # cs) p" | "includesStr cs p" by auto
    then show "\<exists>a b. c # cs = a @ p @ b"
    proof cases
      case 1
      then obtain b where "c # cs = p @ b" by (auto simp: startsWith_iff)
      then have "c # cs = [] @ p @ b" by simp
      then show ?thesis by blast
    next
      case 2
      then obtain a b where "cs = a @ p @ b" using Cons.IH by blast
      then have "c # cs = (c # a) @ p @ b" by simp
      then show ?thesis by blast
    qed
  next
    assume "\<exists>a b. c # cs = a @ p @ b"
    then obtain a b where ab: "c # cs = a @ p @ b" by blast
    show "includesStr (c # cs) p"
    proof (cases a)
      case Nil
      with ab have "startsWith (c # cs) p" by (auto simp: startsWith_iff)
      then show ?thesis by simp
    next
      case (Cons a0 a')
      with ab have "cs = a' @ p @ b" by simp
      then have "includesStr cs p" using Cons.IH by blast
      then show ?thesis by simp
    qed
  qed
qed

lemma endsWith_sliceDropLast:
  assumes "endsWith s p"
  shows "sliceDropLast s (length p) @ p = s"
  using assms unfolding endsWith_def sliceDropLast_def
  by (metis append_take_drop_id)

lemma sliceDropLast_append: "sliceDropLast (a @ p) (length p) = a"
  by (simp add: sliceDropLast_def)

lemma endsWith_append_same: "endsWith (a @ p) p"
  unfolding endsWith_iff by blast

text \<open>A suffix cannot reach back into a prefix whose last character it does not contain.\<close>

lemma endsWith_behind_prefix:
  assumes "a \<noteq> []" and "last a \<notin> set s"
  shows "endsWith (a @ p) s \<longleftrightarrow> endsWith p s"
proof
  assume "endsWith (a @ p) s"
  then obtain x where "a @ p = x @ s" by (auto simp: endsWith_iff)
  then obtain us where "(a = x @ us \<and> us @ p = s) \<or> (a @ us = x \<and> p = us @ s)"
    using append_eq_append_conv2 [of a p x s] by blast
  then show "endsWith p s"
  proof
    assume h: "a = x @ us \<and> us @ p = s"
    show ?thesis
    proof (cases "us = []")
      case True
      with h have "p = [] @ s" by simp
      then show ?thesis unfolding endsWith_iff by blast
    next
      case False
      with h have "last a = last us" by simp
      moreover from False h have "last us \<in> set s" by auto
      ultimately show ?thesis using assms(2) by simp
    qed
  next
    assume "a @ us = x \<and> p = us @ s"
    then show ?thesis unfolding endsWith_iff by blast
  qed
next
  assume "endsWith p s"
  then obtain y where "p = y @ s" by (auto simp: endsWith_iff)
  then have "a @ p = (a @ y) @ s" by simp
  then show "endsWith (a @ p) s" unfolding endsWith_iff by blast
qed

lemma endsWith_single: "endsWith s [c] \<longleftrightarrow> s \<noteq> [] \<and> last s = c"
proof
  assume "endsWith s [c]"
  then obtain a where "s = a @ [c]" by (auto simp: endsWith_iff)
  then show "s \<noteq> [] \<and> last s = c" by simp
next
  assume "s \<noteq> [] \<and> last s = c"
  then have "s = butlast s @ [c]" by (metis append_butlast_last_id)
  then show "endsWith s [c]" unfolding endsWith_iff by blast
qed

lemma includesStr_strip_suffix:
  assumes inc: "includesStr (v @ s) p" and ne: "p \<noteq> []" and last: "last p \<notin> set s"
  shows "includesStr v p"
proof -
  from inc obtain a b where eq: "v @ s = (a @ p) @ b"
    by (auto simp: includesStr_iff)
  then obtain us where "(v = (a @ p) @ us \<and> us @ s = b) \<or> (v @ us = a @ p \<and> s = us @ b)"
    using append_eq_append_conv2 [of v s "a @ p" b] by blast
  then show ?thesis
  proof
    assume "v = (a @ p) @ us \<and> us @ s = b"
    then have "v = a @ p @ us" by simp
    then show ?thesis unfolding includesStr_iff by blast
  next
    assume h: "v @ us = a @ p \<and> s = us @ b"
    show ?thesis
    proof (cases "us = []")
      case True
      with h have "v = a @ p @ []" by simp
      then show ?thesis unfolding includesStr_iff by blast
    next
      case False
      from h have "last (v @ us) = last (a @ p)" by simp
      with False ne have "last us = last p" by simp
      moreover from False h have "last us \<in> set s" by simp
      ultimately show ?thesis using last by simp
    qed
  qed
qed

lemma startsWith_take:
  assumes "startsWith (take k s) p"
  shows "startsWith s p"
proof -
  from assms obtain b where "take k s = p @ b" by (auto simp: startsWith_iff)
  then have "s = p @ (b @ drop k s)" by (metis append_assoc append_take_drop_id)
  then show ?thesis unfolding startsWith_iff by blast
qed

section \<open>Facts about remote normalization\<close>

lemma startsWith_ssh_includes:
  assumes "startsWith u ''git@github.com:''"
  shows "includesStr u ''github.com''"
proof -
  from assms obtain b where "u = ''git@github.com:'' @ b" by (auto simp: startsWith_iff)
  then have "u = ''git@'' @ ''github.com'' @ ('':'' @ b)" by simp
  then show ?thesis unfolding includesStr_iff by blast
qed

lemma normalize_None_iff:
  "normalizeGitHubUrl u = None \<longleftrightarrow> \<not> includesStr u ''github.com''"
  using startsWith_ssh_includes [of u]
  by (auto simp: normalizeGitHubUrl_def Let_def)

lemma includesStr_dropLast_git:
  assumes "includesStr u ''github.com''" "endsWith u ''.git''"
  shows "includesStr (sliceDropLast u 4) ''github.com''"
proof -
  from assms(2) have "sliceDropLast u 4 @ ''.git'' = u"
    using endsWith_sliceDropLast [of u "''.git''"] by (simp add: numeral_eq_Suc)
  with assms(1) have "includesStr (sliceDropLast u 4 @ ''.git'') ''github.com''" by simp
  then show ?thesis by (rule includesStr_strip_suffix) simp_all
qed

lemma normalize_Some_props:
  assumes "normalizeGitHubUrl u = Some r"
  shows "includesStr r ''github.com'' \<and> \<not> startsWith r ''git@github.com:''"
proof (cases "startsWith u ''git@github.com:''")
  case True
  with assms obtain x where r: "r = ''https://github.com/'' @ x"
    by (auto simp: normalizeGitHubUrl_def Let_def)
  then have "r = ''https://'' @ ''github.com'' @ (''/'' @ x)" by simp
  then have "includesStr r ''github.com''" unfolding includesStr_iff by blast
  moreover from r have "\<not> startsWith r ''git@github.com:''" by (simp add: startsWith_def)
  ultimately show ?thesis by simp
next
  case False
  with assms have inc: "includesStr u ''github.com''"
    and r: "r = (if endsWith u ''.git'' then sliceDropLast u 4 else u)"
    by (auto simp: normalizeGitHubUrl_def split: if_splits)
  show ?thesis
  proof (cases "endsWith u ''.git''")
    case True
    with r have r': "r = sliceDropLast u 4" by simp
    have "includesStr r ''github.com''"
      unfolding r' using inc True by (rule includesStr_dropLast_git)
    moreover have "\<not> startsWith r ''git@github.com:''"
      using False startsWith_take [of "length u - 4" u] unfolding r' sliceDropLast_def by blast
    ultimately show ?thesis by simp
  next
    case unchanged: False
    with r inc False show ?thesis by simp
  qed
qed

lemma sliceDropLast_neq:
  assumes "endsWith r ''.git''"
  shows "sliceDropLast r 4 \<noteq> r"
proof
  assume "sliceDropLast r 4 = r"
  then have "length (sliceDropLast r 4) = length r" by simp
  moreover from assms have "4 \<le> length r" by (simp add: endsWith_def)
  ultimately show False by (simp add: sliceDropLast_def)
qed

text \<open>
  The four usual spellings of a GitHub remote, \<open>p\<close> being the \<^verbatim>\<open>owner/repo\<close> part, all
  normalize to \<^verbatim>\<open>https://github.com/\<close> followed by \<open>p\<close>.
\<close>

lemma normalize_usual_forms:
  assumes p: "\<not> endsWith p ''.git''"
    and u: "u = ''git@github.com:'' @ p \<or> u = ''git@github.com:'' @ p @ ''.git''
          \<or> u = ''https://github.com/'' @ p \<or> u = ''https://github.com/'' @ p @ ''.git''"
  shows "normalizeGitHubUrl u = Some (''https://github.com/'' @ p)"
proof -
  have git: "endsWith (p @ ''.git'') ''.git''" by (rule endsWith_append_same)
  have strip: "sliceDropLast (p @ ''.git'') 4 = p"
    using sliceDropLast_append [of p "''.git''"] by (simp add: numeral_eq_Suc)
  have strip': "sliceDropLast (''https://github.com/'' @ p @ ''.git'') 4 = ''https://github.com/'' @ p"
    using sliceDropLast_append [of "''https://github.com/'' @ p" "''.git''"]
    by (simp add: numeral_eq_Suc)
  have git': "endsWith (''https://github.com/'' @ p @ ''.git'') ''.git''"
    using endsWith_append_same [of "''https://github.com/'' @ p" "''.git''"] by simp
  have nogit: "\<not> endsWith (''https://github.com/'' @ p) ''.git''"
    using endsWith_behind_prefix [of "''https://github.com/''" "''.git''" p] p by simp
  have inc: "includesStr (''https://github.com/'' @ x) ''github.com''" for x
  proof -
    have "''https://github.com/'' @ x = ''https://'' @ ''github.com'' @ (''/'' @ x)" by simp
    then show ?thesis unfolding includesStr_iff by blast
  qed
  from u consider (ssh) "u = ''git@github.com:'' @ p" | (sshGit) "u = ''git@github.com:'' @ p @ ''.git''"
    | (https) "u = ''https://github.com/'' @ p" | (httpsGit) "u = ''https://github.com/'' @ p @ ''.git''"
    by blast
  then show ?thesis
  proof cases
    case ssh
    then show ?thesis using p
      by (simp add: normalizeGitHubUrl_def startsWith_def sliceFrom_def)
  next
    case sshGit
    then show ?thesis using git strip
      by (simp add: normalizeGitHubUrl_def startsWith_def sliceFrom_def)
  next
    case https
    then show ?thesis using nogit inc [of p]
      by (simp add: normalizeGitHubUrl_def startsWith_def)
  next
    case httpsGit
    then show ?thesis using git' strip' inc [of "p @ ''.git''"]
      by (simp add: normalizeGitHubUrl_def startsWith_def)
  qed
qed

lemma canonical_origin:
  assumes "p \<noteq> []" "\<not> endsWith p ''.git''" "\<not> endsWith p ''/''"
  shows "startsWith (''https://github.com/'' @ p) ''https://github.com/''
       \<and> \<not> endsWith (''https://github.com/'' @ p) ''.git''
       \<and> \<not> endsWith (''https://github.com/'' @ p) ''/''"
proof -
  have "startsWith (''https://github.com/'' @ p) ''https://github.com/''"
    unfolding startsWith_iff by blast
  moreover have "\<not> endsWith (''https://github.com/'' @ p) ''.git''"
    using endsWith_behind_prefix [of "''https://github.com/''" "''.git''" p] assms(2) by simp
  moreover have "\<not> endsWith (''https://github.com/'' @ p) ''/''"
    using assms(1,3) by (simp add: endsWith_single)
  ultimately show ?thesis by blast
qed

section \<open>Facts about the resolver\<close>

lemma getRemoteUrl_of_query:
  assumes "executeCommand exec ''git config --get remote.origin.url'' root w1 = (Inr url, w2)"
  shows "getRemoteUrl exec root w1 = (normalizeGitHubUrl url, w2)"
  using assms by (simp add: getRemoteUrl_def)

lemma getRepoInfo_no_remote:
  assumes "getGitRootPath dirname exec filePath w = (rootR, w1)"
    and "\<And>root. rootR = Some root \<Longrightarrow> fst (getRemoteUrl exec root w1) = None"
  shows "fst (fst (getRepoInfo dirname exec filePath w)) = None"
  using assms
  by (auto simp: getRepoInfo_def truthyString_def repoInfoFailure_def
      split: prod.splits option.splits if_splits)

lemma getRepoInfo_remoteUrl:
  assumes "getGitRootPath dirname exec filePath w = (Some root, w1)"
    and "getRemoteUrl exec root w1 = (remoteR, w2)"
    and "fst (fst (getRepoInfo dirname exec filePath w)) = Some info"
  shows "remoteR = Some (remoteUrl info)"
  using assms
  by (auto simp: getRepoInfo_def truthyString_def repoInfoFailure_def
      split: prod.splits option.splits if_splits)

text \<open>
  The model agrees with the repository's integration tests: the SSH origin, the HTTPS
  origin on the branch \<^verbatim>\<open>feature\<close>, the detached HEAD and the origin on another host.
\<close>

lemma integration_tests:
  "fst (fst (getRepoInfo dirnameDouble
      (execStub (stubbedRepo ''git@github.com:username/repo.git'' ''main''))
      ''/mock/path/to/file.ts'' ()))
     = Some \<lparr>remoteUrl = ''https://github.com/username/repo'', branch = ''main'',
             rootPath = ''/mock/path''\<rparr>"
  "fst (fst (getRepoInfo dirnameDouble
      (execStub (stubbedRepo ''https://github.com/username/repo.git'' ''feature''))
      ''/mock/path/to/file.ts'' ()))
     = Some \<lparr>remoteUrl = ''https://github.com/username/repo'', branch = ''feature'',
             rootPath = ''/mock/path''\<rparr>"
  "fst (fst (getRepoInfo dirnameDouble
      (execStub (stubbedRepo ''https://github.com/username/repo.git'' ''HEAD''))
      ''/mock/path/to/file.ts'' ()))
     = Some \<lparr>remoteUrl = ''https://github.com/username/repo'', branch = ''abcdef1234567890'',
             rootPath = ''/mock/path''\<rparr>"
  "getRepoInfo dirnameDouble
      (execStub (stubbedRepo ''https://gitlab.com/username/repo.git'' ''main''))
      ''/mock/path/to/file.ts'' ()
     = ((None, [''Failed to get git repository information: No GitHub remote found, check remote configuration'',
                ''Git error details: No GitHub remote found'']), ())"
  by code_simp+

section \<open>Non-GitHub remotes\<close>

text \<open>
  C2, as amended. The claim speaks of the host of the origin URL; the code never looks
  for a host, it looks for the text \<^verbatim>\<open>github.com\<close> anywhere in the URL. Normalization
  is absent exactly for the URLs that do not contain \<^verbatim>\<open>github.com\<close>; when the origin
  query reports such a URL, \<open>getRemoteUrl\<close> returns null and the resolver returns null
  instead of a \<open>RepoInfo\<close>.
\<close>

theorem remote_without_github_unavailable:
  assumes "getGitRootPath dirname exec filePath w = (Some root, w1)"
    and "executeCommand exec ''git config --get remote.origin.url'' root w1 = (Inr url, w2)"
    and "\<not> includesStr url ''github.com''"
  shows "(\<forall>u. normalizeGitHubUrl u = None \<longleftrightarrow> \<not> includesStr u ''github.com'')
       \<and> normalizeGitHubUrl url = None
       \<and> getRemoteUrl exec root w1 = (None, w2)
       \<and> fst (fst (getRepoInfo dirname exec filePath w)) = None"
proof -
  have absent: "normalizeGitHubUrl url = None"
    using assms(3) by (simp add: normalize_None_iff)
  have remote: "getRemoteUrl exec root w1 = (None, w2)"
    using getRemoteUrl_of_query [OF assms(2)] absent by simp
  have "fst (fst (getRepoInfo dirname exec filePath w)) = None"
    using assms(1) remote by (auto intro: getRepoInfo_no_remote)
  with absent remote show ?thesis by (simp add: normalize_None_iff)
qed

text \<open>The repository's own test: the origin \<^verbatim>\<open>https://gitlab.com/username/repo.git\<close>.\<close>

theorem remote_without_github_unavailable_witness:
  "normalizeGitHubUrl ''https://gitlab.com/username/repo.git'' = None
   \<and> getRemoteUrl (execStub (stubbedRepo ''https://gitlab.com/username/repo.git'' ''main''))
        ''/mock/path'' () = (None, ())
   \<and> fst (fst (getRepoInfo dirnameDouble
        (execStub (stubbedRepo ''https://gitlab.com/username/repo.git'' ''main''))
        ''/mock/path/to/file.ts'' ())) = None"
proof -
  let ?exec = "execStub (stubbedRepo ''https://gitlab.com/username/repo.git'' ''main'') :: unit exec"
  have root: "getGitRootPath dirnameDouble ?exec ''/mock/path/to/file.ts'' () = (Some ''/mock/path'', ())"
    by code_simp
  have query: "executeCommand ?exec ''git config --get remote.origin.url'' ''/mock/path'' ()
      = (Inr ''https://gitlab.com/username/repo.git'', ())"
    by code_simp
  have other: "\<not> includesStr ''https://gitlab.com/username/repo.git'' ''github.com''"
    by code_simp
  from remote_without_github_unavailable [OF root query other] show ?thesis by simp
qed

text \<open>
  The claim as stated fails: the origin \<^verbatim>\<open>https://gitlab.com/github.com/repo.git\<close> is
  on the host \<^verbatim>\<open>gitlab.com\<close>, and the resolver returns a \<open>RepoInfo\<close> for it.
\<close>

theorem other_host_accepted:
  "startsWith ''https://gitlab.com/github.com/repo.git'' ''https://gitlab.com/''
   \<and> normalizeGitHubUrl ''https://gitlab.com/github.com/repo.git''
     = Some ''https://gitlab.com/github.com/repo''
   \<and> fst (fst (getRepoInfo dirnameDouble
        (execStub (stubbedRepo ''https://gitlab.com/github.com/repo.git'' ''main''))
        ''/mock/path/to/file.ts'' ()))
     = Some \<lparr>remoteUrl = ''https://gitlab.com/github.com/repo'', branch = ''main'',
             rootPath = ''/mock/path''\<rparr>"
  by code_simp

section \<open>The remote URL of a returned RepoInfo\<close>

text \<open>
  C4, as amended. Whatever origin URL the tool reports, the \<open>remoteUrl\<close> of a returned
  \<open>RepoInfo\<close> is the normalization of that URL and contains \<^verbatim>\<open>github.com\<close>. It is a
  canonical HTTPS GitHub origin (it begins with \<^verbatim>\<open>https://github.com/\<close> and ends with
  neither \<^verbatim>\<open>.git\<close> nor a slash) when the reported URL has one of the forms
  \<^verbatim>\<open>git@github.com:p\<close>, \<^verbatim>\<open>git@github.com:p.git\<close>, \<^verbatim>\<open>https://github.com/p\<close>,
  \<^verbatim>\<open>https://github.com/p.git\<close> with \<open>p\<close> not empty and ending with neither \<^verbatim>\<open>.git\<close> nor
  a slash: the code rewrites the SSH prefix and strips one \<^verbatim>\<open>.git\<close>, nothing more.
\<close>

theorem repoInfo_remoteUrl_canonical:
  assumes "getGitRootPath dirname exec filePath w = (Some root, w1)"
    and "executeCommand exec ''git config --get remote.origin.url'' root w1 = (Inr url, w2)"
    and "fst (fst (getRepoInfo dirname exec filePath w)) = Some info"
  shows "normalizeGitHubUrl url = Some (remoteUrl info)
       \<and> includesStr (remoteUrl info) ''github.com''
       \<and> (\<forall>p. p \<noteq> [] \<and> \<not> endsWith p ''.git'' \<and> \<not> endsWith p ''/''
              \<and> (url = ''git@github.com:'' @ p \<or> url = ''git@github.com:'' @ p @ ''.git''
                 \<or> url = ''https://github.com/'' @ p \<or> url = ''https://github.com/'' @ p @ ''.git'')
            \<longrightarrow> remoteUrl info = ''https://github.com/'' @ p
              \<and> startsWith (remoteUrl info) ''https://github.com/''
              \<and> \<not> endsWith (remoteUrl info) ''.git''
              \<and> \<not> endsWith (remoteUrl info) ''/'')"
proof -
  have norm: "normalizeGitHubUrl url = Some (remoteUrl info)"
    using getRepoInfo_remoteUrl [OF assms(1) getRemoteUrl_of_query [OF assms(2)] assms(3)] .
  have inc: "includesStr (remoteUrl info) ''github.com''"
    using normalize_Some_props [OF norm] by simp
  have forms: "remoteUrl info = ''https://github.com/'' @ p
      \<and> startsWith (remoteUrl info) ''https://github.com/''
      \<and> \<not> endsWith (remoteUrl info) ''.git''
      \<and> \<not> endsWith (remoteUrl info) ''/''"
    if p: "p \<noteq> []" "\<not> endsWith p ''.git''" "\<not> endsWith p ''/''"
      and u: "url = ''git@github.com:'' @ p \<or> url = ''git@github.com:'' @ p @ ''.git''
            \<or> url = ''https://github.com/'' @ p \<or> url = ''https://github.com/'' @ p @ ''.git''"
    for p
  proof -
    have "remoteUrl info = ''https://github.com/'' @ p"
      using normalize_usual_forms [OF p(2) u] norm by simp
    then show ?thesis using canonical_origin [OF p] by simp
  qed
  from norm inc forms show ?thesis by blast
qed

text \<open>The repository's own test: the origin \<^verbatim>\<open>git@github.com:username/repo.git\<close>.\<close>

theorem repoInfo_remoteUrl_canonical_witness:
  "fst (fst (getRepoInfo dirnameDouble
        (execStub (stubbedRepo ''git@github.com:username/repo.git'' ''main''))
        ''/mock/path/to/file.ts'' ()))
     = Some \<lparr>remoteUrl = ''https://github.com/username/repo'', branch = ''main'',
             rootPath = ''/mock/path''\<rparr>
   \<and> startsWith ''https://github.com/username/repo'' ''https://github.com/''
   \<and> \<not> endsWith ''https://github.com/username/repo'' ''.git''
   \<and> \<not> endsWith ''https://github.com/username/repo'' ''/''"
proof -
  let ?exec = "execStub (stubbedRepo ''git@github.com:username/repo.git'' ''main'') :: unit exec"
  let ?info = "\<lparr>remoteUrl = ''https://github.com/username/repo'', branch = ''main'',
      rootPath = ''/mock/path''\<rparr>"
  have root: "getGitRootPath dirnameDouble ?exec ''/mock/path/to/file.ts'' () = (Some ''/mock/path'', ())"
    by code_simp
  have query: "executeCommand ?exec ''git config --get remote.origin.url'' ''/mock/path'' ()
      = (Inr ''git@github.com:username/repo.git'', ())"
    by code_simp
  have info: "fst (fst (getRepoInfo dirnameDouble ?exec ''/mock/path/to/file.ts'' ())) = Some ?info"
    by code_simp
  have p: "''username/repo'' \<noteq> [] \<and> \<not> endsWith ''username/repo'' ''.git''
      \<and> \<not> endsWith ''username/repo'' ''/''"
    by code_simp
  from repoInfo_remoteUrl_canonical [OF root query info] p
  have "remoteUrl ?info = ''https://github.com/'' @ ''username/repo''
      \<and> startsWith (remoteUrl ?info) ''https://github.com/''
      \<and> \<not> endsWith (remoteUrl ?info) ''.git''
      \<and> \<not> endsWith (remoteUrl ?info) ''/''"
    by auto
  with info show ?thesis by simp
qed

text \<open>
  The claim as stated fails: for the origin \<^verbatim>\<open>https://github.com/owner/repo/\<close> the
  returned \<open>remoteUrl\<close> ends with a slash, and for \<^verbatim>\<open>ssh://git@github.com/owner/repo.git\<close>
  it does not begin with \<^verbatim>\<open>https://github.com/\<close>.
\<close>

theorem remoteUrl_not_canonical:
  "fst (fst (getRepoInfo dirnameDouble
        (execStub (stubbedRepo ''https://github.com/owner/repo/'' ''main''))
        ''/mock/path/to/file.ts'' ()))
     = Some \<lparr>remoteUrl = ''https://github.com/owner/repo/'', branch = ''main'',
             rootPath = ''/mock/path''\<rparr>
   \<and> endsWith ''https://github.com/owner/repo/'' ''/''
   \<and> fst (fst (getRepoInfo dirnameDouble
        (execStub (stubbedRepo ''ssh://git@github.com/owner/repo.git'' ''main''))
        ''/mock/path/to/file.ts'' ()))
     = Some \<lparr>remoteUrl = ''ssh://git@github.com/owner/repo'', branch = ''main'',
             rootPath = ''/mock/path''\<rparr>
   \<and> \<not> startsWith ''ssh://git@github.com/owner/repo'' ''https://github.com/''"
  by code_simp

section \<open>Branch resolution\<close>

text \<open>
  C5. When the repository has commits (\<^verbatim>\<open>git rev-parse HEAD\<close> succeeds) and the
  abbreviated ref name query returns the literal \<^verbatim>\<open>HEAD\<close>, branch resolution returns the
  commit hash that the commit-hash query then obtains, not the literal \<^verbatim>\<open>HEAD\<close>.
\<close>

theorem detached_head_gives_commit_hash:
  assumes "executeCommand exec ''git rev-parse HEAD'' repoPath w = (Inr anyHash, w1)"
    and "executeCommand exec ''git rev-parse --abbrev-ref HEAD'' repoPath w1 = (Inr ''HEAD'', w2)"
    and "executeCommand exec ''git rev-parse HEAD'' repoPath w2 = (Inr commitHash, w3)"
  shows "getCurrentBranch exec repoPath w = (Some commitHash, w3)
       \<and> (commitHash \<noteq> ''HEAD'' \<longrightarrow> fst (getCurrentBranch exec repoPath w) \<noteq> Some ''HEAD'')"
  using assms by (simp add: getCurrentBranch_def)

text \<open>The repository's own test of the detached HEAD.\<close>

theorem detached_head_gives_commit_hash_witness:
  "getCurrentBranch (execStub (stubbedRepo ''https://github.com/username/repo.git'' ''HEAD''))
     ''/mock/path'' () = (Some ''abcdef1234567890'', ())
   \<and> fst (getCurrentBranch (execStub (stubbedRepo ''https://github.com/username/repo.git'' ''HEAD''))
     ''/mock/path'' ()) \<noteq> Some ''HEAD''"
proof -
  let ?exec = "execStub (stubbedRepo ''https://github.com/username/repo.git'' ''HEAD'') :: unit exec"
  have commits: "executeCommand ?exec ''git rev-parse HEAD'' ''/mock/path'' ()
      = (Inr ''abcdef1234567890'', ())"
    by code_simp
  have abbrev: "executeCommand ?exec ''git rev-parse --abbrev-ref HEAD'' ''/mock/path'' ()
      = (Inr ''HEAD'', ())"
    by code_simp
  from detached_head_gives_commit_hash [OF commits abbrev commits] show ?thesis by simp
qed

text \<open>
  C6. When the repository has no commits yet (\<^verbatim>\<open>git rev-parse HEAD\<close> fails), branch
  resolution returns the short name of the symbolic ref, and the literal \<^verbatim>\<open>main\<close> when
  that query fails too.
\<close>

theorem no_commits_gives_symbolic_ref_or_main:
  assumes "executeCommand exec ''git rev-parse HEAD'' repoPath w = (Inl error, w1)"
  shows "(\<forall>symbolicRef w2.
            executeCommand exec ''git symbolic-ref --short HEAD'' repoPath w1 = (Inr symbolicRef, w2)
            \<longrightarrow> getCurrentBranch exec repoPath w = (Some symbolicRef, w2))
       \<and> (\<forall>innerError w2.
            executeCommand exec ''git symbolic-ref --short HEAD'' repoPath w1 = (Inl innerError, w2)
            \<longrightarrow> getCurrentBranch exec repoPath w = (Some ''main'', w2))"
  using assms by (simp add: getCurrentBranch_def)

theorem no_commits_gives_symbolic_ref_or_main_witness:
  "getCurrentBranch (execStub unbornRepo) ''/mock/path'' () = (Some ''master'', ())
   \<and> getCurrentBranch (execStub brokenRepo) ''/mock/path'' () = (Some ''main'', ())"
proof -
  let ?unborn = "execStub unbornRepo :: unit exec"
  let ?broken = "execStub brokenRepo :: unit exec"
  have u1: "executeCommand ?unborn ''git rev-parse HEAD'' ''/mock/path'' ()
      = (Inl (ErrorObject ''Command failed: fatal: ambiguous argument HEAD''), ())"
    by code_simp
  have u2: "executeCommand ?unborn ''git symbolic-ref --short HEAD'' ''/mock/path'' ()
      = (Inr ''master'', ())"
    by code_simp
  have b1: "executeCommand ?broken ''git rev-parse HEAD'' ''/mock/path'' ()
      = (Inl (ErrorObject ''Command failed: fatal: ambiguous argument HEAD''), ())"
    by code_simp
  have b2: "executeCommand ?broken ''git symbolic-ref --short HEAD'' ''/mock/path'' ()
      = (Inl (ErrorObject ''Command failed: fatal: ref HEAD is not a symbolic ref''), ())"
    by code_simp
  from no_commits_gives_symbolic_ref_or_main [OF u1] u2
  have "getCurrentBranch ?unborn ''/mock/path'' () = (Some ''master'', ())" by blast
  moreover from no_commits_gives_symbolic_ref_or_main [OF b1] b2
  have "getCurrentBranch ?broken ''/mock/path'' () = (Some ''main'', ())" by blast
  ultimately show ?thesis by simp
qed

section \<open>Normalizing twice\<close>

text \<open>
  C9, as amended. Normalization strips one trailing \<^verbatim>\<open>.git\<close> per pass, so it is
  idempotent on exactly those of its outputs that do not themselves end with \<^verbatim>\<open>.git\<close>:
  when normalizing \<open>u\<close> yields \<open>r\<close>, normalizing \<open>r\<close> yields \<open>r\<close> again if and only if
  \<open>r\<close> has no trailing \<^verbatim>\<open>.git\<close>.
\<close>

theorem normalize_twice:
  assumes "normalizeGitHubUrl u = Some r"
  shows "normalizeGitHubUrl r = Some r \<longleftrightarrow> \<not> endsWith r ''.git''"
  using normalize_Some_props [OF assms] sliceDropLast_neq [of r]
  by (auto simp: normalizeGitHubUrl_def)

theorem normalize_twice_witness:
  "normalizeGitHubUrl ''git@github.com:owner/repo.git'' = Some ''https://github.com/owner/repo''
   \<and> normalizeGitHubUrl ''https://github.com/owner/repo'' = Some ''https://github.com/owner/repo''"
proof -
  have first: "normalizeGitHubUrl ''git@github.com:owner/repo.git'' = Some ''https://github.com/owner/repo''"
    by code_simp
  have "\<not> endsWith ''https://github.com/owner/repo'' ''.git''"
    by code_simp
  with normalize_twice [OF first] first show ?thesis by simp
qed

text \<open>
  The claim as stated fails: \<^verbatim>\<open>https://github.com/owner/repo.git.git\<close> normalizes to
  \<^verbatim>\<open>https://github.com/owner/repo.git\<close>, which normalizes to something else.
\<close>

theorem normalize_not_idempotent:
  "normalizeGitHubUrl ''https://github.com/owner/repo.git.git''
     = Some ''https://github.com/owner/repo.git''
   \<and> normalizeGitHubUrl ''https://github.com/owner/repo.git''
     \<noteq> Some ''https://github.com/owner/repo.git''"
  by code_simp

section \<open>The URL builder\<close>

text \<open>\<open>natToString\<close> writes the decimal digits of its argument.\<close>

lemma decimal_digit:
  assumes "d < 10"
  shows "of_char (''0123456789'' ! d) - 48 = d"
proof -
  from assms have "d = 0 \<or> d = 1 \<or> d = 2 \<or> d = 3 \<or> d = 4 \<or> d = 5 \<or> d = 6 \<or> d = 7
      \<or> d = 8 \<or> d = 9"
    by arith
  then show ?thesis by (elim disjE) simp_all
qed

lemma natToString_decimal:
  "foldl (\<lambda>acc c. 10 * acc + (of_char c - 48)) 0 (natToString n) = n"
proof (induction n rule: natToString.induct)
  case (1 n)
  show ?case
  proof (cases "n < 10")
    case True
    then show ?thesis by (subst natToString.simps) (simp add: decimal_digit)
  next
    case False
    then have "foldl (\<lambda>acc c. 10 * acc + (of_char c - 48)) 0 (natToString (n div 10)) = n div 10"
      using 1 by simp
    with False show ?thesis by (subst natToString.simps) (simp add: decimal_digit)
  qed
qed

lemma replaceBackslashes_no_backslash: "CHR 0x5C \<notin> set (replaceBackslashes s)"
  by (auto simp: replaceBackslashes_def)

lemma replaceBackslashes_length: "length (replaceBackslashes s) = length s"
  by (simp add: replaceBackslashes_def)

lemma replaceBackslashes_id: "CHR 0x5C \<notin> set s \<Longrightarrow> replaceBackslashes s = s"
  by (induction s) (auto simp: replaceBackslashes_def)

text \<open>
  C1. For a file path on which \<^verbatim>\<open>path.relative\<close> from the root returns \<open>rel\<close>, as it does
  for every path under the root, \<open>buildGitHubUrl\<close> returns the remote URL, \<^verbatim>\<open>/blob/\<close>, the
  branch, a slash, \<open>rel\<close> with every backslash replaced by a slash, and the anchor:
  \<^verbatim>\<open>#L<start>-L<end>\<close> when an end line is supplied and differs from the start line,
  \<^verbatim>\<open>#L<start>\<close> otherwise. Line numbers are 1-based; the theorem holds for every start
  line and every end line but \<open>0\<close>.
\<close>

theorem buildGitHubUrl_format:
  assumes "relative (rootPath repoInfo) (Some filePath) = Inr rel"
    and "endLine \<noteq> Some 0"
  shows "buildGitHubUrl relative repoInfo (Some filePath) startLine endLine =
     Inr (Some (remoteUrl repoInfo @ ''/blob/'' @ branch repoInfo @ ''/''
        @ map (\<lambda>c. if c = CHR 0x5C then CHR ''/'' else c) rel
        @ (case endLine of
             Some e \<Rightarrow>
               if e \<noteq> startLine
               then ''#L'' @ numberToString startLine @ ''-L'' @ numberToString e
               else ''#L'' @ numberToString startLine
           | None \<Rightarrow> ''#L'' @ numberToString startLine)))"
  using assms
  by (simp add: buildGitHubUrl_def buildGitHubUrl_try_def replaceBackslashes_def Let_def
      split: option.splits)

text \<open>
  The repository's own tests (line 42, and lines 42 to 50, of \<^verbatim>\<open>/mock/path/src/file.ts\<close>),
  an end line equal to the start line, and a relative path with a backslash.
\<close>

theorem buildGitHubUrl_format_witness:
  "buildGitHubUrl relativeDouble
     \<lparr>remoteUrl = ''https://github.com/username/repo'', branch = ''main'', rootPath = ''/mock/path''\<rparr>
     (Some ''/mock/path/src/file.ts'') 42 None
     = Inr (Some ''https://github.com/username/repo/blob/main/src/file.ts#L42'')
   \<and> buildGitHubUrl relativeDouble
     \<lparr>remoteUrl = ''https://github.com/username/repo'', branch = ''main'', rootPath = ''/mock/path''\<rparr>
     (Some ''/mock/path/src/file.ts'') 42 (Some 50)
     = Inr (Some ''https://github.com/username/repo/blob/main/src/file.ts#L42-L50'')
   \<and> buildGitHubUrl relativeDouble
     \<lparr>remoteUrl = ''https://github.com/username/repo'', branch = ''main'', rootPath = ''/mock/path''\<rparr>
     (Some ''/mock/path/src/file.ts'') 42 (Some 42)
     = Inr (Some ''https://github.com/username/repo/blob/main/src/file.ts#L42'')
   \<and> buildGitHubUrl backslashRelativeDouble
     \<lparr>remoteUrl = ''https://github.com/username/repo'', branch = ''main'', rootPath = ''/mock/path''\<rparr>
     (Some ''/mock/path/src/file.ts'') 7 (Some 9)
     = Inr (Some ''https://github.com/username/repo/blob/main/src/file.ts#L7-L9'')"
proof -
  let ?info = "\<lparr>remoteUrl = ''https://github.com/username/repo'', branch = ''main'',
      rootPath = ''/mock/path''\<rparr>"
  have rel: "relativeDouble (rootPath ?info) (Some ''/mock/path/src/file.ts'') = Inr ''src/file.ts''"
    by code_simp
  have win: "backslashRelativeDouble (rootPath ?info) (Some ''/mock/path/src/file.ts'')
      = Inr (''src'' @ [CHR 0x5C] @ ''file.ts'')"
    by (simp add: backslashRelativeDouble_def)
  have n42: "numberToString 42 = ''42''" and n50: "numberToString 50 = ''50''"
    and n7: "numberToString 7 = ''7''" and n9: "numberToString 9 = ''9''"
    by code_simp+
  have a: "buildGitHubUrl relativeDouble ?info (Some ''/mock/path/src/file.ts'') 42 None
      = Inr (Some ''https://github.com/username/repo/blob/main/src/file.ts#L42'')"
    using buildGitHubUrl_format [where relative=relativeDouble and repoInfo="?info" and endLine=None and startLine=42, OF rel] n42 by simp
  have b: "buildGitHubUrl relativeDouble ?info (Some ''/mock/path/src/file.ts'') 42 (Some 50)
      = Inr (Some ''https://github.com/username/repo/blob/main/src/file.ts#L42-L50'')"
    using buildGitHubUrl_format [where relative=relativeDouble and repoInfo="?info" and endLine="Some 50" and startLine=42, OF rel] n42 n50 by simp
  have c: "buildGitHubUrl relativeDouble ?info (Some ''/mock/path/src/file.ts'') 42 (Some 42)
      = Inr (Some ''https://github.com/username/repo/blob/main/src/file.ts#L42'')"
    using buildGitHubUrl_format [where relative=relativeDouble and repoInfo="?info" and endLine="Some 42" and startLine=42, OF rel] n42 by simp
  have d: "buildGitHubUrl backslashRelativeDouble ?info (Some ''/mock/path/src/file.ts'') 7 (Some 9)
      = Inr (Some ''https://github.com/username/repo/blob/main/src/file.ts#L7-L9'')"
    using buildGitHubUrl_format [where relative=backslashRelativeDouble and repoInfo="?info" and endLine="Some 9" and startLine=7, OF win] n7 n9 by simp
  from a b c d show ?thesis by simp
qed

text \<open>
  C7, as amended. \<open>buildGitHubUrl\<close> never throws, whatever it is given, and it returns an
  absent result exactly when the path computation throws on the file path, as the library
  does on null and on any other value that is not a string. The code has no other test
  of the path: for a string on which the path computation returns, a path outside the
  repository among them, it returns a URL.
\<close>

theorem buildGitHubUrl_absent_iff_path_throws:
  "(\<exists>result. buildGitHubUrl relative repoInfo filePath startLine endLine = Inr result)
   \<and> (buildGitHubUrl relative repoInfo filePath startLine endLine = Inr None
        \<longleftrightarrow> (\<exists>error. relative (rootPath repoInfo) filePath = Inl error))"
proof (cases "relative (rootPath repoInfo) filePath")
  case (Inl thrownValue)
  then show ?thesis
    by (simp add: buildGitHubUrl_def buildGitHubUrl_try_def)
next
  case (Inr rel)
  then show ?thesis
    by (simp add: buildGitHubUrl_def buildGitHubUrl_try_def Let_def split: option.splits)
qed

text \<open>The repository's own test: a null file path at line 42.\<close>

theorem buildGitHubUrl_absent_iff_path_throws_witness:
  "buildGitHubUrl relativeDouble
     \<lparr>remoteUrl = ''https://github.com/username/repo'', branch = ''main'', rootPath = ''/mock/path''\<rparr>
     None 42 None = Inr None"
proof -
  let ?info = "\<lparr>remoteUrl = ''https://github.com/username/repo'', branch = ''main'',
      rootPath = ''/mock/path''\<rparr>"
  have null: "relativeDouble (rootPath ?info) None
      = Inl (ErrorObject ''The to argument must be of type string. Received null'')"
    by (simp add: relativeDouble_def)
  from buildGitHubUrl_absent_iff_path_throws
    [where relative=relativeDouble and repoInfo="?info" and filePath=None and startLine=42
      and endLine=None] null
  show ?thesis by simp
qed

text \<open>
  The claim as stated fails when a file path outside the repository counts as invalid:
  for \<^verbatim>\<open>/other/file.ts\<close> and the root \<^verbatim>\<open>/mock/path\<close> the path computation returns
  \<^verbatim>\<open>../../other/file.ts\<close>, and \<open>buildGitHubUrl\<close> returns a URL, not an absent result.
\<close>

theorem outside_path_gives_url:
  "buildGitHubUrl outsideRelativeDouble
     \<lparr>remoteUrl = ''https://github.com/username/repo'', branch = ''main'', rootPath = ''/mock/path''\<rparr>
     (Some ''/other/file.ts'') 42 None
     = Inr (Some ''https://github.com/username/repo/blob/main/../../other/file.ts#L42'')
   \<and> \<not> startsWith ''/other/file.ts'' ''/mock/path''"
  by code_simp

text \<open>
  C10. An end line equal to \<open>0\<close> is falsy in the test
  \<^verbatim>\<open>endLineNumber && endLineNumber !== startLineNumber\<close>: whatever the start line, the
  result is the one of a call without end line, the URL with the single-point anchor
  \<^verbatim>\<open>#L<start>\<close>.
\<close>

theorem end_line_zero_single_point:
  assumes "relative (rootPath repoInfo) filePath = Inr rel"
  shows "buildGitHubUrl relative repoInfo filePath startLine (Some 0) =
       Inr (Some (remoteUrl repoInfo @ ''/blob/'' @ branch repoInfo @ ''/''
          @ replaceBackslashes rel @ ''#L'' @ numberToString startLine))
     \<and> buildGitHubUrl relative repoInfo filePath startLine (Some 0)
       = buildGitHubUrl relative repoInfo filePath startLine None"
  using assms by (simp add: buildGitHubUrl_def buildGitHubUrl_try_def Let_def)

theorem end_line_zero_single_point_witness:
  "buildGitHubUrl relativeDouble
     \<lparr>remoteUrl = ''https://github.com/username/repo'', branch = ''main'', rootPath = ''/mock/path''\<rparr>
     (Some ''/mock/path/src/file.ts'') 42 (Some 0)
     = Inr (Some ''https://github.com/username/repo/blob/main/src/file.ts#L42'')"
proof -
  let ?info = "\<lparr>remoteUrl = ''https://github.com/username/repo'', branch = ''main'',
      rootPath = ''/mock/path''\<rparr>"
  have rel: "relativeDouble (rootPath ?info) (Some ''/mock/path/src/file.ts'') = Inr ''src/file.ts''"
    by code_simp
  have n42: "numberToString 42 = ''42''"
    by code_simp
  have same: "replaceBackslashes ''src/file.ts'' = ''src/file.ts''"
    by (simp add: replaceBackslashes_def)
  from end_line_zero_single_point
    [where relative=relativeDouble and repoInfo="?info" and startLine=42, OF rel] n42 same
  show ?thesis by simp
qed

section \<open>The command handler\<close>

lemma openInGithub_try_throws_early:
  assumes "openInGithub_try h editor filePath startLine endLine = (events, Inl error)"
  shows "events = []"
  using assms
  by (auto simp: openInGithub_try_def split: sum.splits option.splits if_splits)

text \<open>The throws of the \<^verbatim>\<open>try\<close> block are the throws of its four fallible steps.\<close>

lemma openInGithub_try_throws_iff:
  "snd (openInGithub_try h editor filePath startLine endLine) = Inl error \<longleftrightarrow>
     getRepoInfoDep h filePath = Inl error
     \<or> (\<exists>repoInfo built.
          getRepoInfoDep h filePath = Inr (Some repoInfo)
          \<and> built = (if \<not> selIsEmpty editor \<and> startLine \<noteq> endLine
                     then buildGitHubUrlDep h repoInfo filePath startLine (Some endLine)
                     else buildGitHubUrlDep h repoInfo filePath startLine None)
          \<and> (built = Inl error
             \<or> (\<exists>url. built = Inr (Some url) \<and> url \<noteq> []
                  \<and> (uriParse h url = Inl error
                     \<or> (\<exists>uri. uriParse h url = Inr uri \<and> openExternal h uri = Some error)))))"
proof (cases "getRepoInfoDep h filePath")
  case (Inl thrownValue)
  then show ?thesis by (simp add: openInGithub_try_def)
next
  case (Inr repoInfoR)
  show ?thesis
  proof (cases repoInfoR)
    case None
    with Inr show ?thesis by (simp add: openInGithub_try_def)
  next
    case (Some repoInfo)
    define built where "built = (if \<not> selIsEmpty editor \<and> startLine \<noteq> endLine
                     then buildGitHubUrlDep h repoInfo filePath startLine (Some endLine)
                     else buildGitHubUrlDep h repoInfo filePath startLine None)"
    have body: "openInGithub_try h editor filePath startLine endLine =
        (case built of
           Inl error \<Rightarrow> ([], Inl error)
         | Inr githubUrl \<Rightarrow>
             (case truthyString githubUrl of
                None \<Rightarrow> ([ShowErrorMessage ''Failed to build GitHub URL''], Inr ())
              | Some url \<Rightarrow>
                  (case uriParse h url of
                     Inl error \<Rightarrow> ([], Inl error)
                   | Inr uri \<Rightarrow>
                       (case openExternal h uri of
                          Some error \<Rightarrow> ([], Inl error)
                        | None \<Rightarrow> ([OpenExternal uri, ConsoleLog (''Opening '' @ url)], Inr ())))))"
      using Inr Some by (simp add: openInGithub_try_def built_def)
    have "snd (openInGithub_try h editor filePath startLine endLine) = Inl error \<longleftrightarrow>
        built = Inl error
        \<or> (\<exists>url. built = Inr (Some url) \<and> url \<noteq> []
             \<and> (uriParse h url = Inl error
                \<or> (\<exists>uri. uriParse h url = Inr uri \<and> openExternal h uri = Some error)))"
      unfolding body
      by (auto simp: truthyString_def split: sum.splits option.splits if_splits)
    then show ?thesis using Inr Some by (simp add: built_def)
  qed
qed

text \<open>
  C8, as amended. The \<^verbatim>\<open>try\<close> block begins after the editor state has been read. In
  every execution in which reading the editor state does not throw, no exception escapes
  the handler, and an exception thrown by resolving the repository, building the URL,
  parsing it or the call that opens it is caught and shown to the user as the single
  message \<^verbatim>\<open>Error: \<close> followed by the exception's description.
\<close>

theorem handler_catches_within_try:
  assumes "activeTextEditor h = Inr editorR"
  shows "snd (openInGithub h) = Inr ()
       \<and> (\<forall>editor events error.
            editorR = Some editor
            \<and> openInGithub_try h editor (fsPath editor) (selStartLine editor + 1)
                 (selEndLine editor + 1) = (events, Inl error)
            \<longrightarrow> fst (openInGithub h) = [ShowErrorMessage (''Error: '' @ describe error)])"
proof -
  have "snd (openInGithub h) = Inr ()"
    using assms
    by (auto simp: openInGithub_def Let_def split: sum.splits option.splits prod.splits)
  moreover have "fst (openInGithub h) = [ShowErrorMessage (''Error: '' @ describe error)]"
    if "editorR = Some editor"
      and "openInGithub_try h editor (fsPath editor) (selStartLine editor + 1)
             (selEndLine editor + 1) = (events, Inl error)"
    for editor events error
    using that assms openInGithub_try_throws_early [OF that(2)]
    by (simp add: openInGithub_def Let_def)
  ultimately show ?thesis by blast
qed

text \<open>
  The cursor on line 9 (counted from 0) of \<^verbatim>\<open>/mock/path/src/file.ts\<close>, and a
  \<^verbatim>\<open>Uri.parse\<close> that throws: the handler shows one message and returns.
\<close>

theorem handler_catches_within_try_witness:
  "openInGithub (stubbedHost (Inr (Some (editorAt 9 9 True)))
       (\<lambda>url. Inl (ErrorObject ''[UriError]: Scheme contains illegal characters.'')))
     = ([ShowErrorMessage ''Error: [UriError]: Scheme contains illegal characters.''], Inr ())"
proof -
  let ?h = "stubbedHost (Inr (Some (editorAt 9 9 True)))
       (\<lambda>url. Inl (ErrorObject ''[UriError]: Scheme contains illegal characters.''))"
  have editor: "activeTextEditor ?h = Inr (Some (editorAt 9 9 True))"
    by (simp add: stubbedHost_def withGitModule_def)
  have throws: "openInGithub_try ?h (editorAt 9 9 True) (fsPath (editorAt 9 9 True))
      (selStartLine (editorAt 9 9 True) + 1) (selEndLine (editorAt 9 9 True) + 1)
      = ([], Inl (ErrorObject ''[UriError]: Scheme contains illegal characters.''))"
    by code_simp
  have "describe (ErrorObject ''[UriError]: Scheme contains illegal characters.'')
      = ''[UriError]: Scheme contains illegal characters.''"
    by (simp add: describe_def)
  with handler_catches_within_try [OF editor] throws
  have "snd (openInGithub ?h) = Inr ()
      \<and> fst (openInGithub ?h)
        = [ShowErrorMessage ''Error: [UriError]: Scheme contains illegal characters.'']"
    by auto
  then show ?thesis by (simp add: prod_eq_iff)
qed

text \<open>
  The claim as stated fails: an exception thrown while the editor state is read is thrown
  before the \<^verbatim>\<open>try\<close> block; it leaves the handler and no message is shown.
\<close>

theorem editor_read_throw_escapes:
  "openInGithub (stubbedHost (Inl (ErrorObject ''editor unavailable'')) Inr)
     = ([], Inl (ErrorObject ''editor unavailable''))"
  by code_simp

text \<open>
  The handler on the stubbed repository: a cursor on line 9 opens line 10, a selection
  of lines 4 to 7 opens lines 5 to 8, and without an editor nothing is opened.
\<close>

lemma handler_scenarios:
  "openInGithub (stubbedHost (Inr (Some (editorAt 9 9 True))) Inr)
     = ([OpenExternal ''https://github.com/acme/widget/blob/feature/src/file.ts#L10'',
         ConsoleLog ''Opening https://github.com/acme/widget/blob/feature/src/file.ts#L10''],
        Inr ())"
  "openInGithub (stubbedHost (Inr (Some (editorAt 4 7 False))) Inr)
     = ([OpenExternal ''https://github.com/acme/widget/blob/feature/src/file.ts#L5-L8'',
         ConsoleLog ''Opening https://github.com/acme/widget/blob/feature/src/file.ts#L5-L8''],
        Inr ())"
  "openInGithub (stubbedHost (Inr None) Inr) = ([ShowErrorMessage ''No active editor found''], Inr ())"
  by code_simp+

end
